theory Spec2Isabelle
  imports Complex_Main
begin

section \<open>JavaScript values used by the game\<close>

text \<open>
  The game is written in JavaScript (src/js/app.js). Its numbers are doubles; the
  model takes them as real numbers and writes the rounding of an operation out
  where its result is not exact for the values of the game: the collision test
  (the coordinate differences, \<open>Math.hypot\<close>, the literal \<open>0.6\<close> and the product
  \<open>tileWidth * 0.6\<close>) and the row computed from a random draw. Elsewhere the
  arithmetic is taken exact: the level's dimensions and the player's coordinates
  are small integers, whose sums and products are exact in doubles, halving a time
  step is exact, and the motion of an enemy by \<open>velocity * dt\<close> is not rounded
  (for \<open>dt = 0\<close> it is exact).
  The values that a property read or an array read can give are collected in
  \<open>jsval\<close>: reading a property that an object does not have, or an array index
  that is not an index of the array, gives \<open>undefined\<close> and does not throw.
\<close>

datatype jsval = JUndefined | JBool bool | JNum real | JStr string | JFun string
  | JObj "(string \<times> jsval) list"

datatype js_error = RangeError | TypeError

text \<open>ToBoolean, as applied by \<open>if (v)\<close>.\<close>

fun ToBoolean :: "jsval \<Rightarrow> bool" where
  "ToBoolean JUndefined = False"
| "ToBoolean (JBool b) = b"
| "ToBoolean (JNum x) = (x \<noteq> 0)"
| "ToBoolean (JStr s) = (s \<noteq> [])"
| "ToBoolean (JFun f) = True"
| "ToBoolean (JObj fs) = True"

text \<open>
  ToNumber on the values compared by \<open><=\<close>, \<open>>=\<close> in the game: \<open>None\<close> stands
  for NaN, the result for \<open>undefined\<close>. A relational comparison with NaN on either
  side is false.
\<close>

fun ToNumber :: "jsval \<Rightarrow> real option" where
  "ToNumber (JNum x) = Some x"
| "ToNumber (JBool b) = Some (if b then 1 else 0)"
| "ToNumber _ = None"

definition js_le :: "jsval \<Rightarrow> jsval \<Rightarrow> bool" where
  "js_le a b = (case (ToNumber a, ToNumber b) of (Some x, Some y) \<Rightarrow> x \<le> y | _ \<Rightarrow> False)"

definition js_ge :: "jsval \<Rightarrow> jsval \<Rightarrow> bool" where
  "js_ge a b = (case (ToNumber a, ToNumber b) of (Some x, Some y) \<Rightarrow> x \<ge> y | _ \<Rightarrow> False)"

text \<open>\<open>xs[i]\<close> on an array: the element, or \<open>undefined\<close> outside \<open>0 .. length - 1\<close>.\<close>

definition array_get :: "string list \<Rightarrow> int \<Rightarrow> jsval" where
  "array_get xs i = (if 0 \<le> i \<and> i < int (length xs) then JStr (xs ! nat i) else JUndefined)"

section \<open>Rounding to a double\<close>

text \<open>
  Rounding to the nearest integer, a tie going to the even one.
\<close>

definition round_half_even :: "real \<Rightarrow> int" where
  "round_half_even v =
     (let f = \<lfloor>v\<rfloor> in
      if v - of_int f < 1 / 2 then f
      else if 1 / 2 < v - of_int f then f + 1
      else if even f then f else f + 1)"

text \<open>
  The exponent of the unit in the last place of a double near \<open>v\<close>: 52 below the
  binary exponent of \<open>v\<close>, which is at least -1022 (the subnormal range).
\<close>

definition ulp_exp :: "real \<Rightarrow> int" where
  "ulp_exp v = max \<lfloor>log 2 \<bar>v\<bar>\<rfloor> (- 1022) - 52"

text \<open>
  The double nearest to a real number (IEEE 754 binary64, round to nearest, ties to
  even): the result of an arithmetic operation on doubles is the rounded exact
  result. Overflow to \<open>Infinity\<close> is not modelled; the game's numbers are far
  from it.
\<close>

definition double_round :: "real \<Rightarrow> real" where
  "double_round v =
     (if v = 0 then 0
      else of_int (round_half_even (v / 2 powr of_int (ulp_exp v))) * 2 powr of_int (ulp_exp v))"

section \<open>Level\<close>

text \<open>
  An object \<open>{x: ..., y: ...}\<close>: a position, a velocity or a displacement. The
  fields \<open>x\<close> and \<open>y\<close> are named \<open>xc\<close> and \<open>yc\<close> here.
\<close>

record vec =
  xc :: real
  yc :: real

record Level =
  tileWidth :: real
  tileHeight :: real
  widthTiles :: int
  heightTiles :: int
  start :: vec
  tiles :: "string list"

text \<open>
  The loop \<open>for (column = 0; column < widthTiles; column++) tiles.push(t)\<close>, with the
  number of iterations left as its argument.
\<close>

fun push_columns :: "nat \<Rightarrow> string \<Rightarrow> string list \<Rightarrow> string list" where
  "push_columns 0 t ts = ts"
| "push_columns (Suc n) t ts = push_columns n t (ts @ [t])"

text \<open>The loop \<open>for (row = 0; row < k; row++)\<close> around the column loop.\<close>

fun push_rows :: "nat \<Rightarrow> int \<Rightarrow> string \<Rightarrow> string list \<Rightarrow> string list" where
  "push_rows 0 w t ts = ts"
| "push_rows (Suc k) w t ts = push_rows k w t (push_columns (nat w) t ts)"

definition generateTiles :: "Level \<Rightarrow> Level" where
  "generateTiles l =
     (let t1 = push_columns (nat (widthTiles l)) ''images/water-block.png'' (tiles l);
          t2 = push_rows 3 (widthTiles l) ''images/stone-block.png'' t1;
          t3 = push_rows 2 (widthTiles l) ''images/grass-block.png'' t2
      in l\<lparr>tiles := t3\<rparr>)"

text \<open>The constructor of \<open>Level\<close>.\<close>

definition new_Level :: Level where
  "new_Level = generateTiles
     \<lparr>tileWidth = 101, tileHeight = 83, widthTiles = 5, heightTiles = 6,
      start = \<lparr>xc = 101 * 2, yc = 83 * 5\<rparr>, tiles = []\<rparr>"

text \<open>
  \<open>getTile(row, col)\<close> is the array read \<open>tiles[row * widthTiles + col]\<close>. The
  source has no bounds check and an array read does not throw, so the error branch
  of the result type is never taken.
\<close>

definition getTile :: "Level \<Rightarrow> int \<Rightarrow> int \<Rightarrow> js_error + jsval" where
  "getTile l row col = Inr (array_get (tiles l) (row * widthTiles l + col))"

definition widthPixels :: "Level \<Rightarrow> real" where
  "widthPixels l = tileWidth l * real_of_int (widthTiles l)"

definition heightPixels :: "Level \<Rightarrow> real" where
  "heightPixels l = tileHeight l * real_of_int (heightTiles l)"

section \<open>Entities\<close>

text \<open>
  \<open>Entity\<close> is the base class, \<open>Enemy\<close> and \<open>Player\<close> extend it. The player
  keeps a reference to its level (field \<open>p_level\<close>; the entity collection's is
  \<open>es_level\<close>, the engine's \<open>level\<close>); the level's dimensions never change, so
  the record holds the level itself. (The player's position object is the level's
  \<open>start\<close> object; nothing reads \<open>start\<close> after the player has been built.)
\<close>

record Entity =
  pos :: vec
  sprite :: string

record Enemy = Entity +
  movement :: vec

record Player = Entity +
  p_level :: Level

definition move :: "vec \<Rightarrow> real \<Rightarrow> 'a Entity_scheme \<Rightarrow> 'a Entity_scheme" where
  "move velocity dt e =
     (let p1 = (pos e)\<lparr>xc := xc (pos e) + xc velocity * dt\<rparr>;
          p2 = p1\<lparr>yc := yc p1 + yc velocity * dt\<rparr>
      in e\<lparr>pos := p2\<rparr>)"

definition shiftPosition :: "vec \<Rightarrow> 'a Entity_scheme \<Rightarrow> 'a Entity_scheme" where
  "shiftPosition displacement e =
     (let p1 = (pos e)\<lparr>xc := xc (pos e) + xc displacement\<rparr>;
          p2 = p1\<lparr>yc := yc p1 + yc displacement\<rparr>
      in e\<lparr>pos := p2\<rparr>)"

definition new_Enemy :: "vec \<Rightarrow> vec \<Rightarrow> Enemy" where
  "new_Enemy position mv = \<lparr>pos = position, sprite = ''images/enemy-bug.png'', movement = mv\<rparr>"

definition Enemy_update :: "real \<Rightarrow> Enemy \<Rightarrow> Enemy" where
  "Enemy_update dt e = move (movement e) dt e"

definition new_Player :: "vec \<Rightarrow> Level \<Rightarrow> Player" where
  "new_Player position l = \<lparr>pos = position, sprite = ''images/char-boy.png'', p_level = l\<rparr>"

text \<open>
  \<open>Player.update(input)\<close>: the chain of comparisons with the four direction names,
  then the four clamping assignments, in the order of the source.
\<close>

definition Player_update :: "string \<Rightarrow> Player \<Rightarrow> Player" where
  "Player_update input p =
     (let l = p_level p;
          p0 = (if input = ''left'' then shiftPosition \<lparr>xc = - tileWidth l, yc = 0\<rparr> p
                else if input = ''right'' then shiftPosition \<lparr>xc = tileWidth l, yc = 0\<rparr> p
                else if input = ''up'' then shiftPosition \<lparr>xc = 0, yc = - tileHeight l\<rparr> p
                else if input = ''down'' then shiftPosition \<lparr>xc = 0, yc = tileHeight l\<rparr> p
                else p);
          p1 = p0\<lparr>pos := (pos p0)\<lparr>xc := max 0 (xc (pos p0))\<rparr>\<rparr>;
          p2 = p1\<lparr>pos := (pos p1)\<lparr>yc := max 0 (yc (pos p1))\<rparr>\<rparr>;
          p3 = p2\<lparr>pos := (pos p2)\<lparr>xc := min (xc (pos p2)) (widthPixels l - tileWidth l)\<rparr>\<rparr>;
          p4 = p3\<lparr>pos := (pos p3)\<lparr>yc := min (yc (pos p3)) (heightPixels l - tileHeight l)\<rparr>\<rparr>
      in p4)"

text \<open>
  A property read \<open>enemy.name\<close>. The constructors give an enemy the properties
  \<open>pos\<close>, \<open>sprite\<close> and \<open>movement\<close>, and its classes the methods listed; any other
  name read from it is \<open>undefined\<close>.
\<close>

definition vec_obj :: "vec \<Rightarrow> jsval" where
  "vec_obj v = JObj [(''x'', JNum (xc v)), (''y'', JNum (yc v))]"

definition Enemy_get :: "Enemy \<Rightarrow> string \<Rightarrow> jsval" where
  "Enemy_get e name =
     (if name = ''pos'' then vec_obj (pos e)
      else if name = ''sprite'' then JStr (sprite e)
      else if name = ''movement'' then vec_obj (movement e)
      else if name \<in> set [''constructor'', ''move'', ''shiftPosition'', ''render'', ''update'']
        then JFun name
      else JUndefined)"

section \<open>The entity collection\<close>

record Entities =
  enemies :: "Enemy list"
  player :: Player
  es_level :: Level

definition new_Entities :: "Level \<Rightarrow> Entities" where
  "new_Entities l = \<lparr>enemies = [], player = new_Player (start l) l, es_level = l\<rparr>"

text \<open>
  \<open>Math.random()\<close> is a source of draws: the model takes the sequence of the draws
  to come, gives the first and keeps the rest.
\<close>

type_synonym rng = "nat \<Rightarrow> real"

definition Math_random :: "rng \<Rightarrow> real \<times> rng" where
  "Math_random g = (g 0, \<lambda>n. g (Suc n))"

text \<open>
  \<open>checkEnemyCreation(dt)\<close>. The row is \<open>Math.floor(Math.random() * 3 + 1)\<close>: the
  product and the sum are rounded. \<open>dt * 0.5\<close> is half a double, and the
  coordinates of the new enemy are sums and products of the level's integers.
\<close>

definition checkEnemyCreation :: "real \<Rightarrow> rng \<Rightarrow> Entities \<Rightarrow> rng \<times> Entities" where
  "checkEnemyCreation dt g es =
     (let l = es_level es; (r1, g1) = Math_random g in
      if r1 < dt * 0.5 then
        (let (r2, g2) = Math_random g1;
             row = real_of_int \<lfloor>double_round (double_round (r2 * 3) + 1)\<rfloor>;
             (r3, g3) = Math_random g2 in
         if r3 < 0.5 then
           (g3, es\<lparr>enemies := enemies es @
               [new_Enemy \<lparr>xc = - tileWidth l, yc = row * tileHeight l\<rparr> \<lparr>xc = 100, yc = 0\<rparr>]\<rparr>)
         else
           (g3, es\<lparr>enemies := enemies es @
               [new_Enemy \<lparr>xc = widthPixels l + tileWidth l, yc = row * tileHeight l\<rparr>
                  \<lparr>xc = - 100, yc = 0\<rparr>]\<rparr>))
      else (g1, es))"

text \<open>
  The body of the \<open>for\<close> loop of \<open>checkEnemyRemoval\<close> for one enemy: the two tests
  that set \<open>removeEnemy\<close>. They read \<open>enemyToCheck.x\<close> and \<open>enemyToCheck.movement.x\<close>.
\<close>

definition removeEnemy :: "Level \<Rightarrow> Enemy \<Rightarrow> bool" where
  "removeEnemy l enemyToCheck =
     (let r0 = False;
          r1 = (if js_le (Enemy_get enemyToCheck ''x'') (JNum (- tileWidth l))
                   \<and> xc (movement enemyToCheck) < 0 then True else r0);
          r2 = (if js_ge (Enemy_get enemyToCheck ''x'') (JNum (widthPixels l))
                   \<and> xc (movement enemyToCheck) > 0 then True else r1)
      in r2)"

text \<open>
  The \<open>for\<close> loop: the index of the first enemy to remove, or \<open>-1\<close>. The list is the
  part of the array from \<open>enemyIndex\<close> on.
\<close>

fun scanEnemies :: "Level \<Rightarrow> Enemy list \<Rightarrow> nat \<Rightarrow> int" where
  "scanEnemies l [] enemyIndex = - 1"
| "scanEnemies l (e # es) enemyIndex =
     (if removeEnemy l e then int enemyIndex else scanEnemies l es (Suc enemyIndex))"

text \<open>\<open>xs.splice(i, 1)\<close> for an index \<open>i\<close> of the array.\<close>

definition splice1 :: "'a list \<Rightarrow> nat \<Rightarrow> 'a list" where
  "splice1 xs i = take i xs @ drop (Suc i) xs"

text \<open>The \<open>do ... while (toBeRemoved >= 0)\<close> loop.\<close>

function removalLoop :: "Level \<Rightarrow> Enemy list \<Rightarrow> Enemy list" where
  "removalLoop l es =
     (if scanEnemies l es 0 \<ge> 0 then removalLoop l (splice1 es (nat (scanEnemies l es 0)))
      else es)"
  by pat_completeness auto
termination
proof (relation "measure (\<lambda>(l, es). length es)")
  show "wf (measure (\<lambda>(l, es). length es))" by simp
next
  fix l :: Level and es :: "Enemy list"
  assume found: "0 \<le> scanEnemies l es 0"
  have bound: "0 \<le> scanEnemies l xs i \<Longrightarrow> nat (scanEnemies l xs i) < i + length xs" for xs i
  proof (induction xs arbitrary: i)
    case Nil
    then show ?case by simp
  next
    case (Cons a xs)
    show ?case
    proof (cases "removeEnemy l a")
      case True
      then show ?thesis by simp
    next
      case False
      with Cons.prems have "0 \<le> scanEnemies l xs (Suc i)" by simp
      from Cons.IH [OF this] False show ?thesis by simp
    qed
  qed
  from bound [OF found] have "nat (scanEnemies l es 0) < length es" by simp
  then show "((l, splice1 es (nat (scanEnemies l es 0))), (l, es)) \<in> measure (\<lambda>(l, es). length es)"
    by (simp add: splice1_def)
qed

definition checkEnemyRemoval :: "Entities \<Rightarrow> Entities" where
  "checkEnemyRemoval es = es\<lparr>enemies := removalLoop (es_level es) (enemies es)\<rparr>"

text \<open>
  \<open>Math.hypot(a, b)\<close> returns a double for the square root of the sum of the
  squares. The language leaves its accuracy to the implementation; the model takes
  the correctly rounded value, which is \<open>\<bar>a\<bar>\<close> for a double \<open>a\<close> and \<open>b = 0\<close>.
\<close>

definition Math_hypot :: "real \<Rightarrow> real \<Rightarrow> real" where
  "Math_hypot a b = double_round (sqrt (a\<^sup>2 + b\<^sup>2))"

text \<open>
  The \<open>for ... of\<close> loop of \<open>checkCollisions\<close>, returning at the first enemy in
  reach. The two differences are rounded; the literal \<open>0.6\<close> is the double nearest
  to 6/10, and its product with the tile width is rounded.
\<close>

fun collisionLoop :: "Player \<Rightarrow> Level \<Rightarrow> Enemy list \<Rightarrow> bool" where
  "collisionLoop p l [] = False"
| "collisionLoop p l (enemy # es) =
     (let distance = Math_hypot (double_round (xc (pos p) - xc (pos enemy)))
                                (double_round (yc (pos p) - yc (pos enemy))) in
      if distance < double_round (tileWidth l * double_round (6 / 10)) then True
      else collisionLoop p l es)"

definition checkCollisions :: "Entities \<Rightarrow> bool" where
  "checkCollisions es = collisionLoop (player es) (es_level es) (enemies es)"

text \<open>
  \<open>Entities.update(dt)\<close> returns \<open>!collisionOccurred\<close>, a boolean; the model returns
  it with the rest of the random draws and the updated collection.
\<close>

definition Entities_update :: "real \<Rightarrow> rng \<Rightarrow> Entities \<Rightarrow> bool \<times> rng \<times> Entities" where
  "Entities_update dt g es =
     (let (g1, es1) = checkEnemyCreation dt g es;
          es2 = checkEnemyRemoval es1;
          es3 = es2\<lparr>enemies := map (Enemy_update dt) (enemies es2)\<rparr>;
          collisionOccurred = checkCollisions es3
      in (\<not> collisionOccurred, g1, es3))"

section \<open>Input handler and engine\<close>

text \<open>
  The input handler's table of keys, and its flag \<open>inputsEnabled\<close>, which is
  \<open>undefined\<close> until the engine assigns it. The handler's reference \<open>entities\<close> is
  the engine's \<open>entities\<close> object, so the model keeps it in the engine only.
\<close>

definition allowedKeys :: "int \<Rightarrow> jsval" where
  "allowedKeys keyCode =
     (if keyCode = 37 then JStr ''left'' else if keyCode = 38 then JStr ''up''
      else if keyCode = 39 then JStr ''right'' else if keyCode = 40 then JStr ''down''
      else JUndefined)"

record InputHandler =
  inputsEnabled :: jsval

datatype GameState = initialising | running | levelWin | gameOver

record Engine =
  state :: GameState
  score :: int
  level :: Level
  entities :: Entities
  inputHandler :: InputHandler
  lastTime :: int
  timeSinceReset :: real
  buttonHighlight :: bool

text \<open>
  The \<open>keyup\<close> listener installed by \<open>InputHandler.initializeEventListeners\<close>: it
  looks the key up and, for a key of the table, calls the player's \<open>update\<close>.
\<close>

definition keyup :: "int \<Rightarrow> Engine \<Rightarrow> Engine" where
  "keyup keyCode eng =
     (let keyValue = allowedKeys keyCode in
      if ToBoolean keyValue then
        (case keyValue of
           JStr k \<Rightarrow> eng\<lparr>entities := (entities eng)\<lparr>player := Player_update k (player (entities eng))\<rparr>\<rparr>
         | _ \<Rightarrow> eng)
      else eng)"

text \<open>
  \<open>reset(fullReset)\<close>, for the fields the update cycle uses. The level comes from
  the level factory \<open>Levels\<close>, a class that is not in the source file: it is a
  parameter here. Setting up the canvas and loading the images are left out.
\<close>

definition reset :: "bool \<Rightarrow> Level \<Rightarrow> Engine \<Rightarrow> Engine" where
  "reset fullReset l eng =
     (let e1 = eng\<lparr>state := initialising\<rparr>;
          e2 = (if fullReset then e1\<lparr>score := 0, level := l\<rparr> else e1\<lparr>level := l\<rparr>)
      in e2\<lparr>entities := new_Entities (level e2),
            inputHandler := \<lparr>inputsEnabled = JUndefined\<rparr>,
            lastTime := 0, timeSinceReset := 0, buttonHighlight := False\<rparr>)"

text \<open>
  The constructor runs \<open>reset(true)\<close> on the new object; \<open>reset(true)\<close> assigns
  every field of the record, so the values given here before it do not matter.
\<close>

definition new_Engine :: "Level \<Rightarrow> Engine" where
  "new_Engine l = reset True l
     \<lparr>state = initialising, score = 0, level = l, entities = new_Entities l,
      inputHandler = \<lparr>inputsEnabled = JUndefined\<rparr>, lastTime = 0, timeSinceReset = 0,
      buttonHighlight = False\<rparr>"

text \<open>\<open>initialiseLevel()\<close>, with the value of \<open>Date.now()\<close> as argument.\<close>

definition initialiseLevel :: "int \<Rightarrow> Engine \<Rightarrow> Engine" where
  "initialiseLevel now eng = eng\<lparr>state := running, lastTime := now\<rparr>"

text \<open>\<open>updateTimer()\<close>, with the value of \<open>Date.now()\<close> (milliseconds) as argument.\<close>

definition updateTimer :: "int \<Rightarrow> Engine \<Rightarrow> real \<times> Engine" where
  "updateTimer now eng =
     (let dt = real_of_int (now - lastTime eng) / 1000.0 in (dt, eng\<lparr>lastTime := now\<rparr>))"

definition playerInputAllowed :: "Engine \<Rightarrow> bool" where
  "playerInputAllowed eng = (timeSinceReset eng > 2)"

text \<open>
  A property read on a boolean, as in \<open>entityMessages.hitEnemy\<close> where
  \<open>entityMessages\<close> is the boolean returned by \<open>Entities.update\<close>: the methods of
  \<open>Boolean.prototype\<close> and \<open>Object.prototype\<close>, and \<open>undefined\<close> for any other name.
\<close>

definition Boolean_get :: "bool \<Rightarrow> string \<Rightarrow> jsval" where
  "Boolean_get b name =
     (if name \<in> set [''constructor'', ''toString'', ''valueOf'', ''hasOwnProperty'',
                     ''isPrototypeOf'', ''propertyIsEnumerable'', ''toLocaleString'']
        then JFun name
      else JUndefined)"

definition Engine_update :: "real \<Rightarrow> rng \<Rightarrow> Engine \<Rightarrow> rng \<times> Engine" where
  "Engine_update dt g eng =
     (let e1 = eng\<lparr>timeSinceReset := timeSinceReset eng + dt\<rparr> in
      if state e1 \<noteq> running then (g, e1)
      else
        (let e2 = (if playerInputAllowed e1
                   then e1\<lparr>inputHandler := (inputHandler e1)\<lparr>inputsEnabled := JBool True\<rparr>\<rparr>
                   else e1);
             (entityMessages, g1, es) = Entities_update dt g (entities e2);
             e3 = e2\<lparr>entities := es\<rparr> in
         if ToBoolean (Boolean_get entityMessages ''hitEnemy'') then
           (g1, e3\<lparr>inputHandler := (inputHandler e3)\<lparr>inputsEnabled := JBool False\<rparr>,
                  state := gameOver\<rparr>)
         else if ToBoolean (Boolean_get entityMessages ''levelWon'') then
           (g1, e3\<lparr>inputHandler := (inputHandler e3)\<lparr>inputsEnabled := JBool False\<rparr>,
                  state := levelWin\<rparr>)
         else if ToBoolean (Boolean_get entityMessages ''pickedUpGem'') then
           (g1, e3\<lparr>score := score e3 + 1\<rparr>)
         else (g1, e3)))"

text \<open>
  One iteration of the loop: the time step is the timer's value capped at 0.1 s,
  then the update. Rendering and the request for the next frame are left out.
\<close>

definition frame_dt :: "int \<Rightarrow> Engine \<Rightarrow> real" where
  "frame_dt now eng = min 0.1 (fst (updateTimer now eng))"

definition runLoopIteration :: "int \<Rightarrow> rng \<Rightarrow> Engine \<Rightarrow> rng \<times> Engine" where
  "runLoopIteration now g eng =
     (let dt = frame_dt now eng; e1 = snd (updateTimer now eng) in Engine_update dt g e1)"

section \<open>Facts about the level\<close>

lemma push_columns_replicate: "push_columns n t ts = ts @ replicate n t"
  by (induction n arbitrary: ts) (simp_all add: replicate_app_Cons_same)

lemma push_rows_replicate: "push_rows k w t ts = ts @ replicate (k * nat w) t"
  by (induction k arbitrary: ts) (simp_all add: push_columns_replicate replicate_add)

lemma tiles_new_Level:
  "tiles new_Level = replicate 5 ''images/water-block.png''
     @ replicate 15 ''images/stone-block.png'' @ replicate 10 ''images/grass-block.png''"
  by (simp add: new_Level_def generateTiles_def push_columns_replicate push_rows_replicate)

lemma widthTiles_new_Level: "widthTiles new_Level = 5"
  by (simp add: new_Level_def generateTiles_def)

lemma heightTiles_new_Level: "heightTiles new_Level = 6"
  by (simp add: new_Level_def generateTiles_def)

lemma tileWidth_new_Level: "tileWidth new_Level = 101"
  by (simp add: new_Level_def generateTiles_def)

lemma tileHeight_new_Level: "tileHeight new_Level = 83"
  by (simp add: new_Level_def generateTiles_def)

lemma start_new_Level: "start new_Level = \<lparr>xc = 202, yc = 415\<rparr>"
  by (simp add: new_Level_def generateTiles_def)

lemma widthPixels_new_Level: "widthPixels new_Level = 505"
  by (simp add: widthPixels_def widthTiles_new_Level tileWidth_new_Level)

lemma heightPixels_new_Level: "heightPixels new_Level = 498"
  by (simp add: heightPixels_def heightTiles_new_Level tileHeight_new_Level)

lemma length_tiles_new_Level: "length (tiles new_Level) = 30"
  by (simp add: tiles_new_Level)

lemma nth_tiles_new_Level:
  assumes "i < 30"
  shows "tiles new_Level ! i =
           (if i < 5 then ''images/water-block.png''
            else if i < 20 then ''images/stone-block.png'' else ''images/grass-block.png'')"
  using assms by (auto simp: tiles_new_Level nth_append)

section \<open>Facts about rounding\<close>

lemma round_half_even_of_int: "round_half_even (of_int n) = n"
  by (simp add: round_half_even_def)

lemma round_half_even_range:
  "\<lfloor>v\<rfloor> \<le> round_half_even v" "round_half_even v \<le> \<lfloor>v\<rfloor> + 1"
  by (simp_all add: round_half_even_def Let_def)

lemma round_half_even_mono:
  assumes "v \<le> w"
  shows "round_half_even v \<le> round_half_even w"
proof (cases "\<lfloor>v\<rfloor> = \<lfloor>w\<rfloor>")
  case True
  with assms show ?thesis
    by (auto simp: round_half_even_def Let_def)
next
  case False
  with assms have "\<lfloor>v\<rfloor> < \<lfloor>w\<rfloor>"
    using floor_mono [OF assms] by linarith
  then have "round_half_even v \<le> \<lfloor>w\<rfloor>"
    using round_half_even_range(2) [of v] by linarith
  with round_half_even_range(1) [of w] show ?thesis by linarith
qed

lemma round_half_even_minus: "round_half_even (- v) = - round_half_even v"
proof (cases "v = of_int \<lfloor>v\<rfloor>")
  case True
  then obtain n where "v = of_int n" ..
  then have "round_half_even (- v) = round_half_even (of_int (- n))" by simp
  also have "\<dots> = - n" by (rule round_half_even_of_int)
  finally show ?thesis using \<open>v = of_int n\<close> by (simp add: round_half_even_of_int)
next
  case False
  then have fl: "\<lfloor>- v\<rfloor> = - \<lfloor>v\<rfloor> - 1"
    by (simp add: floor_minus ceiling_altdef)
  have fr: "of_int \<lfloor>v\<rfloor> < v" using False by linarith
  show ?thesis
    unfolding round_half_even_def Let_def fl using fr
    by (auto; linarith?)
qed

lemma double_round_zero: "double_round 0 = 0"
  by (simp add: double_round_def)

lemma double_round_minus: "double_round (- v) = - double_round v"
  by (simp add: double_round_def ulp_exp_def round_half_even_minus)

lemma double_round_eval:
  assumes "2 powr of_int e \<le> \<bar>v\<bar>" and "\<bar>v\<bar> < 2 powr of_int (e + 1)" and "- 1022 \<le> e"
  shows "double_round v =
           of_int (round_half_even (v / 2 powr of_int (e - 52))) * 2 powr of_int (e - 52)"
proof -
  have "0 < (2::real) powr of_int e" by simp
  with assms(1) have pos: "0 < \<bar>v\<bar>" by linarith
  then have "\<lfloor>log 2 \<bar>v\<bar>\<rfloor> = e"
    using assms(1,2) by (simp add: floor_log_eq_powr_iff)
  with assms(3) have "ulp_exp v = e - 52" by (simp add: ulp_exp_def)
  with pos show ?thesis by (simp add: double_round_def)
qed

lemma double_round_nonneg:
  assumes "0 \<le> v"
  shows "0 \<le> double_round v"
proof -
  have "0 \<le> v / 2 powr of_int (ulp_exp v)" using assms by simp
  from round_half_even_mono [OF this] have "0 \<le> round_half_even (v / 2 powr of_int (ulp_exp v))"
    using round_half_even_of_int [of 0] by simp
  then show ?thesis by (simp add: double_round_def)
qed

lemma pow2_shift: "2 powr of_int (b + int n) = 2 ^ n * (2 powr of_int b :: real)"
  by (simp add: powr_add powr_realpow)

lemma double_round_mono:
  assumes "0 \<le> v" and "v \<le> w"
  shows "double_round v \<le> double_round w"
proof (cases "v = 0")
  case True
  with assms double_round_nonneg [of w] show ?thesis by (simp add: double_round_zero)
next
  case False
  with assms have v: "0 < v" and w: "0 < w" by simp_all
  let ?a = "ulp_exp v" and ?b = "ulp_exp w"
  have lg: "\<lfloor>log 2 v\<rfloor> \<le> \<lfloor>log 2 w\<rfloor>"
    using v assms(2) by (intro floor_mono) simp
  then have ab: "?a \<le> ?b" using v w by (simp add: ulp_exp_def)
  show ?thesis
  proof (cases "?a = ?b")
    case True
    have "v / 2 powr of_int ?b \<le> w / 2 powr of_int ?b"
      using assms(2) by (simp add: divide_right_mono)
    from round_half_even_mono [OF this] show ?thesis
      using v w True by (simp add: double_round_def)
  next
    case False
    with ab have lt: "?a + 1 \<le> ?b" by simp
    have "max B (- 1022) - 52 = B - 52"
      if "A \<le> B" and "max A (- 1022) - 52 + 1 \<le> max B (- 1022) - 52" for A B :: int
      using that by arith
    from this [OF lg] lt v w have bexp: "?b = \<lfloor>log 2 w\<rfloor> - 52"
      unfolding ulp_exp_def by simp
    have aexp: "\<lfloor>log 2 v\<rfloor> + 1 \<le> ?a + 53"
      using v unfolding ulp_exp_def by simp
    have s52: "2 powr of_int (?b + 52) = 2 ^ 52 * (2 powr of_int ?b :: real)"
      using pow2_shift [of ?b 52] by simp
    have s53: "2 powr of_int (?a + 53) = 2 ^ 53 * (2 powr of_int ?a :: real)"
      using pow2_shift [of ?a 53] by simp
    have "2 powr of_int \<lfloor>log 2 w\<rfloor> \<le> w"
      using w floor_log_eq_powr_iff [of w 2 "\<lfloor>log 2 w\<rfloor>"] by simp
    then have "2 powr of_int (?b + 52) \<le> w" using bexp by simp
    then have "2 ^ 52 * 2 powr of_int ?b \<le> w"
      unfolding s52 .
    then have "of_int (2 ^ 52) \<le> w / 2 powr of_int ?b"
      by (simp add: pos_le_divide_eq)
    from round_half_even_mono [OF this]
    have "2 ^ 52 \<le> round_half_even (w / 2 powr of_int ?b)"
      by (simp only: round_half_even_of_int)
    then have "of_int (2 ^ 52) \<le> (of_int (round_half_even (w / 2 powr of_int ?b)) :: real)"
      by (simp only: of_int_le_iff)
    then have "of_int (2 ^ 52) * (2 powr of_int ?b :: real)
        \<le> of_int (round_half_even (w / 2 powr of_int ?b)) * 2 powr of_int ?b"
      by (intro mult_right_mono) simp_all
    then have low: "2 powr of_int (?b + 52) \<le> double_round w"
      using w unfolding s52 by (simp add: double_round_def)
    have "v < 2 powr of_int (\<lfloor>log 2 v\<rfloor> + 1)"
      using v floor_log_eq_powr_iff [of v 2 "\<lfloor>log 2 v\<rfloor>"] by simp
    also have "\<dots> \<le> 2 powr of_int (?a + 53)"
      using aexp by simp
    finally have "v \<le> 2 ^ 53 * 2 powr of_int ?a"
      unfolding s53 by simp
    then have "v / 2 powr of_int ?a \<le> of_int (2 ^ 53)"
      by (simp add: pos_divide_le_eq)
    from round_half_even_mono [OF this]
    have "round_half_even (v / 2 powr of_int ?a) \<le> 2 ^ 53"
      by (simp only: round_half_even_of_int)
    then have "(of_int (round_half_even (v / 2 powr of_int ?a)) :: real) \<le> of_int (2 ^ 53)"
      by (simp only: of_int_le_iff)
    then have "of_int (round_half_even (v / 2 powr of_int ?a)) * (2 powr of_int ?a :: real)
        \<le> of_int (2 ^ 53) * 2 powr of_int ?a"
      by (intro mult_right_mono) simp_all
    then have "double_round v \<le> 2 powr of_int (?a + 53)"
      using v unfolding s53 by (simp add: double_round_def)
    also have "\<dots> \<le> 2 powr of_int (?b + 52)"
      using lt by simp
    finally show ?thesis using low by linarith
  qed
qed

lemma double_round_abs: "double_round \<bar>v\<bar> = \<bar>double_round v\<bar>"
proof (cases "0 \<le> v")
  case True
  with double_round_nonneg [of v] show ?thesis by simp
next
  case False
  then have "0 \<le> - v" by simp
  from double_round_nonneg [OF this] False show ?thesis
    by (simp add: double_round_minus)
qed

lemma double_round_one: "double_round 1 = 1"
  by (subst double_round_eval [of 0]) (simp_all add: round_half_even_def powr_neg_numeral)

lemma double_round_two: "double_round 2 = 2"
  by (subst double_round_eval [of 1]) (simp_all add: round_half_even_def powr_neg_numeral)

lemma double_round_three: "double_round 3 = 3"
  by (subst double_round_eval [of 1]) (simp_all add: round_half_even_def powr_neg_numeral)

lemma double_round_71: "double_round 71 = 71"
  by (subst double_round_eval [of 6]) (simp_all add: round_half_even_def powr_neg_numeral)

lemma double_round_literal: "double_round (6 / 10) = 5404319552844595 / 2 ^ 53"
  by (subst double_round_eval [of "- 1"]) (simp_all add: round_half_even_def powr_neg_numeral)

lemma double_round_product:
  "double_round (101 * (5404319552844595 / 2 ^ 53)) = 2132172948583219 / 2 ^ 45"
  by (subst double_round_eval [of 5]) (simp_all add: round_half_even_def powr_neg_numeral)

lemma threshold_101: "double_round (101 * double_round (6 / 10)) = 2132172948583219 / 2 ^ 45"
  unfolding double_round_literal by (rule double_round_product)

lemma double_round_threshold: "double_round (2132172948583219 / 2 ^ 45) = 2132172948583219 / 2 ^ 45"
  by (subst double_round_eval [of 5]) (simp_all add: round_half_even_def powr_neg_numeral)

lemma double_round_below_one: "double_round (1 - 3 / 2 ^ 53) = 1 - 3 / 2 ^ 53"
  by (subst double_round_eval [of "- 1"]) (simp_all add: round_half_even_def powr_neg_numeral)

lemma double_round_below_two: "double_round (2 - 3 / 2 ^ 53) = 2 - 1 / 2 ^ 51"
  by (subst double_round_eval [of 0]) (simp_all add: round_half_even_def powr_neg_numeral)

lemma double_round_below_three: "double_round (3 - 3 / 2 ^ 53) = 3 - 1 / 2 ^ 51"
  by (subst double_round_eval [of 1]) (simp_all add: round_half_even_def powr_neg_numeral)

lemma double_round_three_pred: "double_round (3 - 1 / 2 ^ 51) = 3 - 1 / 2 ^ 51"
  by (subst double_round_eval [of 1]) (simp_all add: round_half_even_def powr_neg_numeral)

lemma double_round_four_pred: "double_round (4 - 1 / 2 ^ 51) = 4 - 1 / 2 ^ 51"
  by (subst double_round_eval [of 1]) (simp_all add: round_half_even_def powr_neg_numeral)

lemma double_round_tie: "double_round (3 * (6004799503160661 / 2 ^ 53)) = 2"
  by (subst double_round_eval [of 0]) (simp_all add: round_half_even_def powr_neg_numeral)

text \<open>The row computed from a draw \<open>r\<close> in [0, 1 - 2^-53], the range of the doubles below 1.\<close>

lemma row_step:
  assumes "0 \<le> a" and "a \<le> b"
  shows "double_round (double_round (a * 3) + 1) \<le> double_round (double_round (b * 3) + 1)"
proof -
  have "double_round (a * 3) \<le> double_round (b * 3)"
    using assms by (intro double_round_mono) simp_all
  moreover have "0 \<le> double_round (a * 3)"
    using assms(1) by (intro double_round_nonneg) simp
  ultimately show ?thesis by (intro double_round_mono) simp_all
qed

lemma row_at_zero: "double_round (double_round (0 * 3) + 1) = 1"
  by (simp add: double_round_zero double_round_one)

lemma row_at_third: "double_round (double_round (1 / 3 * 3) + 1) = 2"
  by (simp add: double_round_one double_round_two)

lemma row_at_two_thirds: "double_round (double_round (2 / 3 * 3) + 1) = 3"
  by (simp add: double_round_two double_round_three)

lemma row_below_third: "double_round (double_round ((1 / 3 - 1 / 2 ^ 53) * 3) + 1) = 2 - 1 / 2 ^ 51"
proof -
  have "(1 / 3 - 1 / 2 ^ 53) * 3 = (1 - 3 / 2 ^ 53 :: real)" by simp
  moreover have "1 - 3 / 2 ^ 53 + 1 = (2 - 3 / 2 ^ 53 :: real)" by simp
  ultimately show ?thesis
    by (simp only: double_round_below_one double_round_below_two)
qed

lemma row_below_two_thirds:
  "double_round (double_round ((2 / 3 - 1 / 2 ^ 53) * 3) + 1) = 3 - 1 / 2 ^ 51"
proof -
  have "(2 / 3 - 1 / 2 ^ 53) * 3 = (2 - 3 / 2 ^ 53 :: real)" by simp
  moreover have "2 - 1 / 2 ^ 51 + 1 = (3 - 1 / 2 ^ 51 :: real)" by simp
  ultimately show ?thesis
    by (simp only: double_round_below_two double_round_three_pred)
qed

lemma row_below_one: "double_round (double_round ((1 - 1 / 2 ^ 53) * 3) + 1) = 4 - 1 / 2 ^ 51"
proof -
  have "(1 - 1 / 2 ^ 53) * 3 = (3 - 3 / 2 ^ 53 :: real)" by simp
  moreover have "3 - 1 / 2 ^ 51 + 1 = (4 - 1 / 2 ^ 51 :: real)" by simp
  ultimately show ?thesis
    by (simp only: double_round_below_three double_round_four_pred)
qed

lemma row_cases:
  fixes r :: real
  assumes "0 \<le> r" and "r \<le> 1 - 1 / 2 ^ 53"
  shows "\<lfloor>double_round (double_round (r * 3) + 1)\<rfloor> \<in> {1, 2, 3}"
    and "r \<le> 1 / 3 - 1 / 2 ^ 53 \<Longrightarrow> \<lfloor>double_round (double_round (r * 3) + 1)\<rfloor> = 1"
    and "1 / 3 \<le> r \<Longrightarrow> r \<le> 2 / 3 - 1 / 2 ^ 53 \<Longrightarrow>
           \<lfloor>double_round (double_round (r * 3) + 1)\<rfloor> = 2"
    and "2 / 3 \<le> r \<Longrightarrow> \<lfloor>double_round (double_round (r * 3) + 1)\<rfloor> = 3"
proof -
  let ?R = "\<lambda>r::real. double_round (double_round (r * 3) + 1)"
  have "?R 0 \<le> ?R r" using assms(1) by (intro row_step) simp_all
  then have lo: "1 \<le> ?R r" by (simp only: row_at_zero)
  have "?R r \<le> ?R (1 - 1 / 2 ^ 53)" by (rule row_step [OF assms])
  then have "?R r \<le> 4 - 1 / 2 ^ 51" by (simp only: row_below_one)
  then have hi: "?R r < 4" by simp
  define k where "k = \<lfloor>?R r\<rfloor>"
  have "1 \<le> k" unfolding k_def using lo by (simp add: le_floor_iff)
  moreover have "k < 4" unfolding k_def using hi by (simp add: floor_less_iff)
  ultimately have "k \<in> {1, 2, 3}" by auto
  then show "\<lfloor>?R r\<rfloor> \<in> {1, 2, 3}" unfolding k_def .
  show "\<lfloor>?R r\<rfloor> = 1" if "r \<le> 1 / 3 - 1 / 2 ^ 53"
  proof -
    have "?R r \<le> ?R (1 / 3 - 1 / 2 ^ 53)" by (rule row_step [OF assms(1) that])
    then have "?R r \<le> 2 - 1 / 2 ^ 51" by (simp only: row_below_third)
    then have "?R r < 2" by simp
    with lo show ?thesis by (simp add: floor_eq_iff)
  qed
  show "\<lfloor>?R r\<rfloor> = 2" if "1 / 3 \<le> r" and "r \<le> 2 / 3 - 1 / 2 ^ 53"
  proof -
    have "?R (1 / 3) \<le> ?R r" using that(1) by (intro row_step) simp_all
    then have ge: "2 \<le> ?R r" by (simp only: row_at_third)
    have "?R r \<le> ?R (2 / 3 - 1 / 2 ^ 53)" by (rule row_step [OF assms(1) that(2)])
    then have "?R r \<le> 3 - 1 / 2 ^ 51" by (simp only: row_below_two_thirds)
    then have "?R r < 3" by simp
    with ge show ?thesis by (simp add: floor_eq_iff)
  qed
  show "\<lfloor>?R r\<rfloor> = 3" if "2 / 3 \<le> r"
  proof -
    have "?R (2 / 3) \<le> ?R r" using that by (intro row_step) simp_all
    then have "3 \<le> ?R r" by (simp only: row_at_two_thirds)
    with hi show ?thesis by (simp add: floor_eq_iff)
  qed
qed

section \<open>Facts about the entities and the frame update\<close>

lemma Math_hypot_zero: "Math_hypot a 0 = double_round \<bar>a\<bar>"
  by (simp add: Math_hypot_def)

lemma Math_hypot_same_row:
  assumes "0 \<le> t" and "double_round t = t"
  shows "Math_hypot (double_round (0 - t)) (double_round (c - c)) = t"
  using assms by (simp add: double_round_minus double_round_zero Math_hypot_zero)

lemma collisionLoop_iff:
  "collisionLoop p l es \<longleftrightarrow>
     (\<exists>e \<in> set es.
        Math_hypot (double_round (xc (pos p) - xc (pos e))) (double_round (yc (pos p) - yc (pos e)))
          < double_round (tileWidth l * double_round (6 / 10)))"
  by (induction es) (simp_all add: Let_def)

lemma checkCollisions_101:
  assumes "tileWidth (es_level es) = 101"
  shows "checkCollisions es \<longleftrightarrow>
     (\<exists>e \<in> set (enemies es).
        Math_hypot (double_round (xc (pos (player es)) - xc (pos e)))
                   (double_round (yc (pos (player es)) - yc (pos e)))
          < 2132172948583219 / 2 ^ 45)"
  unfolding checkCollisions_def collisionLoop_iff assms threshold_101 ..

lemma checkCollisions_single:
  assumes "tileWidth (es_level es) = 101" and "enemies es = [e]"
    and "xc (pos (player es)) = px" and "yc (pos (player es)) = py"
    and "xc (pos e) = ex" and "yc (pos e) = ey"
  shows "checkCollisions es \<longleftrightarrow>
     Math_hypot (double_round (px - ex)) (double_round (py - ey)) < 2132172948583219 / 2 ^ 45"
  using assms by (simp add: checkCollisions_101)

lemma far_apart:
  fixes a b :: real
  assumes "101 \<le> sqrt (a\<^sup>2 + b\<^sup>2)"
  shows "71 \<le> Math_hypot (double_round a) (double_round b)"
proof -
  have "sqrt (101\<^sup>2) \<le> sqrt (a\<^sup>2 + b\<^sup>2)" using assms by simp
  then have sq: "101\<^sup>2 \<le> a\<^sup>2 + b\<^sup>2" by (simp only: real_sqrt_le_iff)
  have big: "71 \<le> \<bar>a\<bar> \<or> 71 \<le> \<bar>b\<bar>"
  proof (rule ccontr)
    assume "\<not> (71 \<le> \<bar>a\<bar> \<or> 71 \<le> \<bar>b\<bar>)"
    then have "\<bar>a\<bar> < 71" "\<bar>b\<bar> < 71" by simp_all
    then have "\<bar>a\<bar>\<^sup>2 < 71\<^sup>2" "\<bar>b\<bar>\<^sup>2 < 71\<^sup>2"
      by (intro power_strict_mono; simp)+
    then have "a\<^sup>2 < 71\<^sup>2" "b\<^sup>2 < 71\<^sup>2" by (simp_all only: power2_abs)
    with sq show False by simp
  qed
  have step: "71 \<le> \<bar>double_round c\<bar>" if "71 \<le> \<bar>c\<bar>" for c :: real
  proof -
    have "double_round 71 \<le> double_round \<bar>c\<bar>" using that by (intro double_round_mono) simp_all
    then show ?thesis by (simp only: double_round_71 double_round_abs)
  qed
  have sq_ge: "71\<^sup>2 \<le> c\<^sup>2" if "71 \<le> \<bar>c\<bar>" for c :: real
  proof -
    have "71\<^sup>2 \<le> \<bar>c\<bar>\<^sup>2" using that by (intro power_mono) simp_all
    then show ?thesis by (simp only: power2_abs)
  qed
  have "71\<^sup>2 \<le> (double_round a)\<^sup>2 + (double_round b)\<^sup>2"
  proof -
    have nn: "0 \<le> (double_round a)\<^sup>2" "0 \<le> (double_round b)\<^sup>2" by simp_all
    from big show ?thesis
    proof
      assume "71 \<le> \<bar>a\<bar>"
      from sq_ge [OF step [OF this]] nn(2) show ?thesis by linarith
    next
      assume "71 \<le> \<bar>b\<bar>"
      from sq_ge [OF step [OF this]] nn(1) show ?thesis by linarith
    qed
  qed
  then have "sqrt (71\<^sup>2) \<le> sqrt ((double_round a)\<^sup>2 + (double_round b)\<^sup>2)"
    by (simp only: real_sqrt_le_iff)
  then have "71 \<le> sqrt ((double_round a)\<^sup>2 + (double_round b)\<^sup>2)" by simp
  then have "double_round 71 \<le> double_round (sqrt ((double_round a)\<^sup>2 + (double_round b)\<^sup>2))"
    by (intro double_round_mono) simp_all
  then show ?thesis by (simp only: double_round_71 Math_hypot_def)
qed

lemma Enemy_get_x: "Enemy_get e ''x'' = JUndefined"
  by (simp add: Enemy_get_def)

lemma removeEnemy_False: "removeEnemy l e = False"
  by (simp add: removeEnemy_def Enemy_get_x js_le_def js_ge_def)

lemma scanEnemies_none: "scanEnemies l es i = - 1"
  by (induction es arbitrary: i) (simp_all add: removeEnemy_False)

lemma removalLoop_id: "removalLoop l es = es"
  by (subst removalLoop.simps) (simp add: scanEnemies_none)

lemma checkEnemyRemoval_id: "checkEnemyRemoval es = es"
  unfolding checkEnemyRemoval_def removalLoop_id by simp

lemma Enemy_update_zero: "Enemy_update 0 e = e"
  by (simp add: Enemy_update_def move_def)

lemma Boolean_get_fields:
  "Boolean_get b ''hitEnemy'' = JUndefined"
  "Boolean_get b ''levelWon'' = JUndefined"
  "Boolean_get b ''pickedUpGem'' = JUndefined"
  by (simp_all add: Boolean_get_def)

lemma checkEnemyCreation_zero: "0 \<le> g 0 \<Longrightarrow> snd (checkEnemyCreation 0 g es) = es"
  by (simp add: checkEnemyCreation_def Math_random_def Let_def)

lemma pos_Player_update:
  "pos (Player_update input p) =
     \<lparr>xc = min (max 0 (xc (pos p) +
              (if input = ''left'' then - tileWidth (p_level p)
               else if input = ''right'' then tileWidth (p_level p) else 0)))
            (widthPixels (p_level p) - tileWidth (p_level p)),
      yc = min (max 0 (yc (pos p) +
              (if input = ''left'' \<or> input = ''right'' then 0
               else if input = ''up'' then - tileHeight (p_level p)
               else if input = ''down'' then tileHeight (p_level p) else 0)))
            (heightPixels (p_level p) - tileHeight (p_level p))\<rparr>"
proof -
  consider (left) "input = ''left''" | (right) "input = ''right''" | (up) "input = ''up''"
    | (down) "input = ''down''"
    | (other) "input \<noteq> ''left''" "input \<noteq> ''right''" "input \<noteq> ''up''" "input \<noteq> ''down''"
    by blast
  then show ?thesis
  proof cases
    case left
    then show ?thesis by (simp add: Player_update_def shiftPosition_def Let_def)
  next
    case right
    then show ?thesis by (simp add: Player_update_def shiftPosition_def Let_def)
  next
    case up
    then show ?thesis by (simp add: Player_update_def shiftPosition_def Let_def)
  next
    case down
    then show ?thesis by (simp add: Player_update_def shiftPosition_def Let_def)
  next
    case other
    then show ?thesis by (simp add: Player_update_def Let_def)
  qed
qed

lemma p_level_Player_update: "p_level (Player_update input p) = p_level p"
proof -
  have "p_level (shiftPosition d p) = p_level p" for d
    by (simp add: shiftPosition_def Let_def)
  then show ?thesis by (simp add: Player_update_def Let_def)
qed

lemma Player_update_bounds:
  assumes "p_level p = new_Level"
  shows "0 \<le> xc (pos (Player_update input p)) \<and>
         xc (pos (Player_update input p)) \<le> widthPixels new_Level - tileWidth new_Level \<and>
         0 \<le> yc (pos (Player_update input p)) \<and>
         yc (pos (Player_update input p)) \<le> heightPixels new_Level - tileHeight new_Level"
  by (simp add: pos_Player_update assms widthPixels_new_Level heightPixels_new_Level
      tileWidth_new_Level tileHeight_new_Level)

lemma foldl_Player_update_bounds:
  assumes "p_level p = new_Level"
    and "0 \<le> xc (pos p)" and "xc (pos p) \<le> widthPixels new_Level - tileWidth new_Level"
    and "0 \<le> yc (pos p)" and "yc (pos p) \<le> heightPixels new_Level - tileHeight new_Level"
  shows "0 \<le> xc (pos (foldl (\<lambda>q i. Player_update i q) p inputs)) \<and>
         xc (pos (foldl (\<lambda>q i. Player_update i q) p inputs))
           \<le> widthPixels new_Level - tileWidth new_Level \<and>
         0 \<le> yc (pos (foldl (\<lambda>q i. Player_update i q) p inputs)) \<and>
         yc (pos (foldl (\<lambda>q i. Player_update i q) p inputs))
           \<le> heightPixels new_Level - tileHeight new_Level"
  using assms
proof (induction inputs arbitrary: p)
  case Nil
  then show ?case by simp
next
  case (Cons i inputs)
  have lv: "p_level (Player_update i p) = new_Level"
    using Cons.prems(1) by (simp add: p_level_Player_update)
  from Player_update_bounds [OF Cons.prems(1), of i] Cons.IH [OF lv]
  show ?case by simp
qed

lemma checkEnemyCreation_result:
  "snd (checkEnemyCreation dt g es) =
     (if g 0 < dt * 0.5 then
        es\<lparr>enemies := enemies es @
          [\<lparr>pos = \<lparr>xc = (if g 2 < 0.5 then - tileWidth (es_level es)
                           else widthPixels (es_level es) + tileWidth (es_level es)),
                     yc = real_of_int \<lfloor>double_round (double_round (g 1 * 3) + 1)\<rfloor>
                            * tileHeight (es_level es)\<rparr>,
            sprite = ''images/enemy-bug.png'',
            movement = \<lparr>xc = (if g 2 < 0.5 then 100 else - 100), yc = 0\<rparr>\<rparr>]\<rparr>
      else es)"
  by (simp add: checkEnemyCreation_def Math_random_def Let_def numeral_2_eq_2 new_Enemy_def)

lemma Entities_update_zero:
  assumes "0 \<le> g 0"
  shows "snd (snd (Entities_update 0 g es)) = es"
proof -
  have "map (Enemy_update 0) (enemies es) = enemies es"
    by (induction "enemies es") (simp_all add: Enemy_update_zero map_idI)
  then show ?thesis
    using checkEnemyCreation_zero [of g es, OF assms]
    by (simp add: Entities_update_def Let_def split_beta checkEnemyRemoval_id)
qed

lemma Engine_update_result:
  "snd (Engine_update dt g eng) =
     (if state eng \<noteq> running then eng\<lparr>timeSinceReset := timeSinceReset eng + dt\<rparr>
      else eng\<lparr>timeSinceReset := timeSinceReset eng + dt,
               inputHandler := (if 2 < timeSinceReset eng + dt
                                then (inputHandler eng)\<lparr>inputsEnabled := JBool True\<rparr>
                                else inputHandler eng),
               entities := snd (snd (Entities_update dt g (entities eng)))\<rparr>)"
  by (simp add: Engine_update_def Let_def split_beta Boolean_get_fields playerInputAllowed_def)

lemma spawned_pos:
  assumes "g 0 < dt * 0.5" and "\<lfloor>double_round (double_round (g 1 * 3) + 1)\<rfloor> = k"
    and "g 2 < 0.5 \<longleftrightarrow> left"
  shows "map pos (enemies (snd (checkEnemyCreation dt g es))) =
     map pos (enemies es) @
       [\<lparr>xc = (if left then - tileWidth (es_level es)
               else widthPixels (es_level es) + tileWidth (es_level es)),
         yc = real_of_int k * tileHeight (es_level es)\<rparr>]"
  using assms by (simp add: checkEnemyCreation_result)

section \<open>The outcome of a frame\<close>

text \<open>
  Claim C1: in a running frame the entity update produces an outcome message with
  the fields hitEnemy, pickedUpGem and levelWon, and a true hitEnemy moves the
  state to game over. The code does not do this. Two presses of the up key put the
  player on row 3, at (202, 249), and an enemy moving right is at the same place.
  In a frame of 10 ms \<open>Entities.update\<close> returns the boolean \<open>false\<close> (a collision
  occurred), the engine reads from it a field that does not exist, and the state
  is still running after the frame.
\<close>

theorem Engine_update_ignores_collision:
  "pos (player (entities (keyup 38 (keyup 38 (initialiseLevel 1000 (new_Engine new_Level))))))
     = \<lparr>xc = 202, yc = 249\<rparr> \<and>
   fst (Entities_update (1 / 100) (\<lambda>n. 1 / 2)
     ((entities (keyup 38 (keyup 38 (initialiseLevel 1000 (new_Engine new_Level)))))
        \<lparr>enemies := [new_Enemy \<lparr>xc = 202, yc = 249\<rparr> \<lparr>xc = 100, yc = 0\<rparr>]\<rparr>)) = False \<and>
   state (snd (Engine_update (1 / 100) (\<lambda>n. 1 / 2)
     ((keyup 38 (keyup 38 (initialiseLevel 1000 (new_Engine new_Level))))
        \<lparr>entities := (entities (keyup 38 (keyup 38 (initialiseLevel 1000 (new_Engine new_Level)))))
           \<lparr>enemies := [new_Enemy \<lparr>xc = 202, yc = 249\<rparr> \<lparr>xc = 100, yc = 0\<rparr>]\<rparr>\<rparr>))) = running"
proof -
  let ?E = "keyup 38 (keyup 38 (initialiseLevel 1000 (new_Engine new_Level)))"
  have k1: "entities (keyup 38 (initialiseLevel 1000 (new_Engine new_Level))) =
      (new_Entities new_Level)\<lparr>player := new_Player \<lparr>xc = 202, yc = 332\<rparr> new_Level\<rparr>"
    by (simp add: keyup_def allowedKeys_def initialiseLevel_def new_Engine_def reset_def
        new_Entities_def new_Player_def start_new_Level Player_update_def shiftPosition_def
        Let_def widthPixels_new_Level heightPixels_new_Level tileWidth_new_Level
        tileHeight_new_Level)
  have k2: "entities ?E =
      (new_Entities new_Level)\<lparr>player := new_Player \<lparr>xc = 202, yc = 249\<rparr> new_Level\<rparr>"
    unfolding keyup_def [of 38 "keyup 38 (initialiseLevel 1000 (new_Engine new_Level))"] k1
    by (simp add: allowedKeys_def
        new_Entities_def new_Player_def Player_update_def shiftPosition_def
        Let_def widthPixels_new_Level heightPixels_new_Level tileWidth_new_Level
        tileHeight_new_Level)
  have st: "state ?E = running"
    by (simp add: keyup_def allowedKeys_def initialiseLevel_def)
  have ps: "pos (player (entities ?E)) = \<lparr>xc = 202, yc = 249\<rparr>"
    unfolding k2 by (simp add: new_Player_def)
  have msg: "fst (Entities_update (1 / 100) (\<lambda>n. 1 / 2)
     ((entities ?E)\<lparr>enemies := [new_Enemy \<lparr>xc = 202, yc = 249\<rparr> \<lparr>xc = 100, yc = 0\<rparr>]\<rparr>)) = False"
    unfolding k2
    by (simp add: Entities_update_def Let_def split_beta checkEnemyCreation_def
        Math_random_def checkEnemyRemoval_id checkCollisions_101 Enemy_update_def move_def
        new_Entities_def new_Player_def new_Enemy_def Math_hypot_def tileWidth_new_Level
        double_round_zero double_round_minus double_round_one)
  from st ps msg show ?thesis
    by (simp add: Engine_update_result)
qed

text \<open>
  Claim C10: \<open>Entities.update(dt)\<close> returns one boolean, the negation of
  \<open>checkCollisions()\<close> evaluated on the collection after the spawn check, the
  removal sweep and the motion of every enemy by \<open>dt\<close>; it is not a record, and
  reading the fields hitEnemy, pickedUpGem and levelWon from it gives \<open>undefined\<close>.
\<close>

theorem Entities_update_returns_boolean:
  "fst (Entities_update dt g es) = (\<not> checkCollisions (snd (snd (Entities_update dt g es)))) \<and>
   snd (snd (Entities_update dt g es)) =
     (checkEnemyRemoval (snd (checkEnemyCreation dt g es)))
       \<lparr>enemies := map (Enemy_update dt)
          (enemies (checkEnemyRemoval (snd (checkEnemyCreation dt g es))))\<rparr> \<and>
   Boolean_get (fst (Entities_update dt g es)) ''hitEnemy'' = JUndefined \<and>
   Boolean_get (fst (Entities_update dt g es)) ''pickedUpGem'' = JUndefined \<and>
   Boolean_get (fst (Entities_update dt g es)) ''levelWon'' = JUndefined"
  by (simp add: Entities_update_def Let_def split_beta Boolean_get_fields)

section \<open>The removal sweep\<close>

text \<open>
  Claim C2: after the removal sweep no enemy is left that has crossed the screen
  in the direction of its travel. The code does not do this: the sweep tests
  \<open>enemyToCheck.x\<close>, a property no enemy has (the position is \<open>pos.x\<close>, which
  \<open>checkCollisions\<close> reads), so both tests are false for every enemy. An enemy
  moving right at x = 606, beyond the level's width of 505, is still in the
  collection after the sweep.
\<close>

theorem checkEnemyRemoval_keeps_offscreen_enemy:
  "enemies (checkEnemyRemoval ((new_Entities new_Level)
      \<lparr>enemies := [new_Enemy \<lparr>xc = 606, yc = 83\<rparr> \<lparr>xc = 100, yc = 0\<rparr>]\<rparr>)) =
     [new_Enemy \<lparr>xc = 606, yc = 83\<rparr> \<lparr>xc = 100, yc = 0\<rparr>] \<and>
   widthPixels new_Level \<le> xc (pos (new_Enemy \<lparr>xc = 606, yc = 83\<rparr> \<lparr>xc = 100, yc = 0\<rparr>)) \<and>
   0 < xc (movement (new_Enemy \<lparr>xc = 606, yc = 83\<rparr> \<lparr>xc = 100, yc = 0\<rparr>))"
  by (simp add: checkEnemyRemoval_id widthPixels_new_Level new_Enemy_def)

section \<open>Player input\<close>

text \<open>
  Claim C3: a directional input changes the player's position only after the two
  seconds of grace and only while the input handler's flag is not disabled. The
  code does not do this: the key listener calls the player's update for every key
  of its table and reads neither \<open>timeSinceReset\<close> nor \<open>inputsEnabled\<close>. Right
  after a reset, with input not yet allowed, the left key moves the player from
  x = 202 to x = 101; it does the same in the game-over state with the flag set
  to false.
\<close>

theorem keyup_moves_player_while_input_disabled:
  "\<not> playerInputAllowed (initialiseLevel 1000 (new_Engine new_Level)) \<and>
   pos (player (entities (initialiseLevel 1000 (new_Engine new_Level)))) = \<lparr>xc = 202, yc = 415\<rparr> \<and>
   pos (player (entities (keyup 37 (initialiseLevel 1000 (new_Engine new_Level))))) =
     \<lparr>xc = 101, yc = 415\<rparr> \<and>
   pos (player (entities (keyup 37 ((initialiseLevel 1000 (new_Engine new_Level))
      \<lparr>state := gameOver, inputHandler := \<lparr>inputsEnabled = JBool False\<rparr>\<rparr>)))) =
     \<lparr>xc = 101, yc = 415\<rparr>"
  by (simp add: playerInputAllowed_def initialiseLevel_def new_Engine_def reset_def
      new_Entities_def new_Player_def start_new_Level keyup_def allowedKeys_def
      pos_Player_update widthPixels_new_Level heightPixels_new_Level
      tileWidth_new_Level tileHeight_new_Level)

text \<open>
  Claim C4: after \<open>Player.update\<close> with any input, on a player of the level the
  constructor builds, the position satisfies 0 \<le> x \<le> widthPixels - tileWidth and
  0 \<le> y \<le> heightPixels - tileHeight; the same holds after any sequence of inputs
  from the start position; and the new position is the old one shifted by one tile
  width (left, right) or one tile height (up, down), or not shifted for any other
  input, and then clamped, whatever the input.
\<close>

theorem Player_update_clamped:
  assumes "p_level p = new_Level"
  shows "(0 \<le> xc (pos (Player_update input p)) \<and>
          xc (pos (Player_update input p)) \<le> widthPixels new_Level - tileWidth new_Level \<and>
          0 \<le> yc (pos (Player_update input p)) \<and>
          yc (pos (Player_update input p)) \<le> heightPixels new_Level - tileHeight new_Level) \<and>
         (0 \<le> xc (pos (foldl (\<lambda>q i. Player_update i q) (player (new_Entities new_Level)) inputs)) \<and>
          xc (pos (foldl (\<lambda>q i. Player_update i q) (player (new_Entities new_Level)) inputs))
            \<le> widthPixels new_Level - tileWidth new_Level \<and>
          0 \<le> yc (pos (foldl (\<lambda>q i. Player_update i q) (player (new_Entities new_Level)) inputs)) \<and>
          yc (pos (foldl (\<lambda>q i. Player_update i q) (player (new_Entities new_Level)) inputs))
            \<le> heightPixels new_Level - tileHeight new_Level) \<and>
         pos (Player_update input p) =
           \<lparr>xc = min (max 0 (xc (pos p) +
                    (if input = ''left'' then - tileWidth new_Level
                     else if input = ''right'' then tileWidth new_Level else 0)))
                  (widthPixels new_Level - tileWidth new_Level),
            yc = min (max 0 (yc (pos p) +
                    (if input = ''left'' \<or> input = ''right'' then 0
                     else if input = ''up'' then - tileHeight new_Level
                     else if input = ''down'' then tileHeight new_Level else 0)))
                  (heightPixels new_Level - tileHeight new_Level)\<rparr>"
proof -
  have start: "p_level (player (new_Entities new_Level)) = new_Level"
    "pos (player (new_Entities new_Level)) = \<lparr>xc = 202, yc = 415\<rparr>"
    by (simp_all add: new_Entities_def new_Player_def start_new_Level)
  have seq: "0 \<le> xc (pos (foldl (\<lambda>q i. Player_update i q) (player (new_Entities new_Level)) inputs)) \<and>
          xc (pos (foldl (\<lambda>q i. Player_update i q) (player (new_Entities new_Level)) inputs))
            \<le> widthPixels new_Level - tileWidth new_Level \<and>
          0 \<le> yc (pos (foldl (\<lambda>q i. Player_update i q) (player (new_Entities new_Level)) inputs)) \<and>
          yc (pos (foldl (\<lambda>q i. Player_update i q) (player (new_Entities new_Level)) inputs))
            \<le> heightPixels new_Level - tileHeight new_Level"
    by (rule foldl_Player_update_bounds)
      (simp_all add: start widthPixels_new_Level heightPixels_new_Level
        tileWidth_new_Level tileHeight_new_Level)
  have shape: "pos (Player_update input p) =
           \<lparr>xc = min (max 0 (xc (pos p) +
                    (if input = ''left'' then - tileWidth new_Level
                     else if input = ''right'' then tileWidth new_Level else 0)))
                  (widthPixels new_Level - tileWidth new_Level),
            yc = min (max 0 (yc (pos p) +
                    (if input = ''left'' \<or> input = ''right'' then 0
                     else if input = ''up'' then - tileHeight new_Level
                     else if input = ''down'' then tileHeight new_Level else 0)))
                  (heightPixels new_Level - tileHeight new_Level)\<rparr>"
    unfolding pos_Player_update assms ..
  from Player_update_bounds [OF assms, of input] seq shape show ?thesis
    by (intro conjI) simp_all
qed

theorem Player_update_clamped_witness:
  "p_level (player (new_Entities new_Level)) = new_Level \<and>
   pos (Player_update ''left'' (player (new_Entities new_Level))) = \<lparr>xc = 101, yc = 415\<rparr> \<and>
   pos (Player_update ''down'' (player (new_Entities new_Level))) = \<lparr>xc = 202, yc = 415\<rparr> \<and>
   xc (pos (foldl (\<lambda>q i. Player_update i q) (player (new_Entities new_Level))
              [''right'', ''right'', ''right''])) \<le> 404"
proof -
  have lv: "p_level (player (new_Entities new_Level)) = new_Level"
    by (simp add: new_Entities_def new_Player_def)
  have st: "pos (player (new_Entities new_Level)) = \<lparr>xc = 202, yc = 415\<rparr>"
    by (simp add: new_Entities_def new_Player_def start_new_Level)
  show ?thesis
    using Player_update_clamped [OF lv, of "''left''" "[''right'', ''right'', ''right'']"]
      Player_update_clamped [OF lv, of "''down''" "[]"] lv
    by (simp add: st widthPixels_new_Level heightPixels_new_Level
        tileWidth_new_Level tileHeight_new_Level)
qed

section \<open>Collisions\<close>

text \<open>
  Claim C5, as stated: \<open>checkCollisions\<close> is true exactly when some enemy's
  Euclidean distance from the player is strictly below \<open>tileWidth * 0.6\<close>. The
  product \<open>101 * 0.6\<close> is 60.599999999999994 in doubles, not 60.6. With the player
  at (0, 249) and an enemy on the same row at x = 60.599999999999994 (the double
  2132172948583219 / 2^45) the distance is below 60.6 and the check is false.
\<close>

theorem checkCollisions_below_real_threshold:
  "sqrt ((0 - 2132172948583219 / 2 ^ 45)\<^sup>2 + (249 - 249)\<^sup>2) < tileWidth new_Level * 0.6 \<and>
   \<not> checkCollisions ((new_Entities new_Level)
        \<lparr>player := new_Player \<lparr>xc = 0, yc = 249\<rparr> new_Level,
         enemies := [new_Enemy \<lparr>xc = 2132172948583219 / 2 ^ 45, yc = 249\<rparr> \<lparr>xc = 100, yc = 0\<rparr>]\<rparr>)"
proof -
  let ?es = "(new_Entities new_Level)
        \<lparr>player := new_Player \<lparr>xc = 0, yc = 249\<rparr> new_Level,
         enemies := [new_Enemy \<lparr>xc = 2132172948583219 / 2 ^ 45, yc = 249\<rparr> \<lparr>xc = 100, yc = 0\<rparr>]\<rparr>"
  let ?e = "new_Enemy \<lparr>xc = 2132172948583219 / 2 ^ 45, yc = 249\<rparr> \<lparr>xc = 100, yc = 0\<rparr>"
  have real_dist: "sqrt ((0 - 2132172948583219 / 2 ^ 45)\<^sup>2 + (249 - 249)\<^sup>2)
      < tileWidth new_Level * 0.6"
    by (simp add: tileWidth_new_Level)
  have lv: "tileWidth (es_level ?es) = 101"
    by (simp add: new_Entities_def tileWidth_new_Level)
  have en: "enemies ?es = [?e]" by simp
  have px: "xc (pos (player ?es)) = 0" and py: "yc (pos (player ?es)) = 249"
    by (simp_all add: new_Player_def)
  have ex: "xc (pos ?e) = 2132172948583219 / 2 ^ 45" and ey: "yc (pos ?e) = 249"
    by (simp_all add: new_Enemy_def)
  have d: "Math_hypot (double_round (0 - 2132172948583219 / 2 ^ 45)) (double_round (249 - 249))
      = 2132172948583219 / 2 ^ 45"
    by (rule Math_hypot_same_row [OF _ double_round_threshold]) simp
  have "\<not> checkCollisions ?es"
    unfolding checkCollisions_single [OF lv en px py ex ey] d by simp
  with real_dist show ?thesis by (rule conjI)
qed

text \<open>
  Claim C5, amended: \<open>checkCollisions\<close> is true exactly when, for some enemy, the
  distance the code computes (\<open>Math.hypot\<close> of the two rounded coordinate
  differences, the rounded square root of the sum of their squares) is strictly
  below the rounded product \<open>tileWidth * 0.6\<close>; for the
  tile width 101 of the level this threshold is the double 60.599999999999994
  (2132172948583219 / 2^45). With that tile width, an enemy at exactly the
  player's position gives true, and when every enemy is at Euclidean distance at
  least \<open>tileWidth\<close> from the player the result is false.
\<close>

theorem checkCollisions_threshold:
  "(checkCollisions es \<longleftrightarrow>
      (\<exists>e \<in> set (enemies es).
         double_round (sqrt ((double_round (xc (pos (player es)) - xc (pos e)))\<^sup>2
                           + (double_round (yc (pos (player es)) - yc (pos e)))\<^sup>2))
           < double_round (tileWidth (es_level es) * double_round (6 / 10)))) \<and>
   (tileWidth (es_level es) = 101 \<longrightarrow>
      double_round (tileWidth (es_level es) * double_round (6 / 10)) = 2132172948583219 / 2 ^ 45 \<and>
      ((\<exists>e \<in> set (enemies es). pos e = pos (player es)) \<longrightarrow> checkCollisions es) \<and>
      ((\<forall>e \<in> set (enemies es).
          tileWidth (es_level es)
            \<le> sqrt ((xc (pos (player es)) - xc (pos e))\<^sup>2 + (yc (pos (player es)) - yc (pos e))\<^sup>2)) \<longrightarrow>
         \<not> checkCollisions es))"
proof (intro conjI impI)
  show "checkCollisions es \<longleftrightarrow>
      (\<exists>e \<in> set (enemies es).
         double_round (sqrt ((double_round (xc (pos (player es)) - xc (pos e)))\<^sup>2
                           + (double_round (yc (pos (player es)) - yc (pos e)))\<^sup>2))
           < double_round (tileWidth (es_level es) * double_round (6 / 10)))"
    unfolding checkCollisions_def collisionLoop_iff Math_hypot_def ..
next
  assume tw: "tileWidth (es_level es) = 101"
  show "double_round (tileWidth (es_level es) * double_round (6 / 10)) = 2132172948583219 / 2 ^ 45"
    unfolding tw by (rule threshold_101)
next
  assume tw: "tileWidth (es_level es) = 101"
    and same: "\<exists>e \<in> set (enemies es). pos e = pos (player es)"
  from same obtain e where e: "e \<in> set (enemies es)" "pos e = pos (player es)" by blast
  have "Math_hypot (double_round (xc (pos (player es)) - xc (pos e)))
                   (double_round (yc (pos (player es)) - yc (pos e))) = 0"
    by (simp add: e(2) double_round_zero Math_hypot_def)
  then have "Math_hypot (double_round (xc (pos (player es)) - xc (pos e)))
                   (double_round (yc (pos (player es)) - yc (pos e))) < 2132172948583219 / 2 ^ 45"
    by simp
  with e(1) show "checkCollisions es"
    unfolding checkCollisions_101 [OF tw] by blast
next
  assume tw: "tileWidth (es_level es) = 101"
    and far: "\<forall>e \<in> set (enemies es).
          tileWidth (es_level es)
            \<le> sqrt ((xc (pos (player es)) - xc (pos e))\<^sup>2 + (yc (pos (player es)) - yc (pos e))\<^sup>2)"
  show "\<not> checkCollisions es"
  proof
    assume "checkCollisions es"
    then obtain e where e: "e \<in> set (enemies es)"
      "Math_hypot (double_round (xc (pos (player es)) - xc (pos e)))
                  (double_round (yc (pos (player es)) - yc (pos e))) < 2132172948583219 / 2 ^ 45"
      unfolding checkCollisions_101 [OF tw] by blast
    from far e(1) tw
    have "101 \<le> sqrt ((xc (pos (player es)) - xc (pos e))\<^sup>2 + (yc (pos (player es)) - yc (pos e))\<^sup>2)"
      by simp
    from far_apart [OF this] e(2) show False by simp
  qed
qed

theorem checkCollisions_threshold_witness:
  "tileWidth (es_level ((new_Entities new_Level)
         \<lparr>enemies := [new_Enemy \<lparr>xc = 202, yc = 415\<rparr> \<lparr>xc = 100, yc = 0\<rparr>]\<rparr>)) = 101 \<and>
   checkCollisions ((new_Entities new_Level)
         \<lparr>enemies := [new_Enemy \<lparr>xc = 202, yc = 415\<rparr> \<lparr>xc = 100, yc = 0\<rparr>]\<rparr>) \<and>
   \<not> checkCollisions ((new_Entities new_Level)
         \<lparr>enemies := [new_Enemy \<lparr>xc = 101, yc = 415\<rparr> \<lparr>xc = 100, yc = 0\<rparr>]\<rparr>)"
proof -
  let ?near = "(new_Entities new_Level)
         \<lparr>enemies := [new_Enemy \<lparr>xc = 202, yc = 415\<rparr> \<lparr>xc = 100, yc = 0\<rparr>]\<rparr>"
  let ?far = "(new_Entities new_Level)
         \<lparr>enemies := [new_Enemy \<lparr>xc = 101, yc = 415\<rparr> \<lparr>xc = 100, yc = 0\<rparr>]\<rparr>"
  have tw: "tileWidth (es_level ?near) = 101" "tileWidth (es_level ?far) = 101"
    by (simp_all add: new_Entities_def tileWidth_new_Level)
  have same: "\<exists>e \<in> set (enemies ?near). pos e = pos (player ?near)"
    by (simp add: new_Entities_def new_Player_def new_Enemy_def start_new_Level)
  have "(101::real) \<le> sqrt ((202 - 101)\<^sup>2 + (415 - 415)\<^sup>2)" by simp
  then have far: "\<forall>e \<in> set (enemies ?far). tileWidth (es_level ?far)
       \<le> sqrt ((xc (pos (player ?far)) - xc (pos e))\<^sup>2 + (yc (pos (player ?far)) - yc (pos e))\<^sup>2)"
    by (simp add: new_Entities_def new_Player_def new_Enemy_def start_new_Level tileWidth_new_Level)
  from checkCollisions_threshold [of ?near] checkCollisions_threshold [of ?far] tw same far
  show ?thesis by blast
qed

section \<open>The spawner\<close>

text \<open>
  Claim C6, as stated: the row of a new enemy is drawn uniformly from 1, 2, 3, that
  is, each row for one third of the draws. The row is \<open>Math.floor(r * 3 + 1)\<close> in
  doubles, and the rounding of \<open>r * 3\<close> moves the boundaries: the draw
  0.6666666666666666 (6004799503160661 / 2^53) lies in the middle third, and the
  enemy it creates is on row 3, at y = 3 * 83.
\<close>

theorem checkEnemyCreation_row_off_third:
  "1 / 3 \<le> (6004799503160661 / 2 ^ 53 :: real) \<and> (6004799503160661 / 2 ^ 53 :: real) < 2 / 3 \<and>
   map pos (enemies (snd (checkEnemyCreation (1 / 10)
       (\<lambda>n. if n = 0 then 0 else if n = 1 then 6004799503160661 / 2 ^ 53 else 3 / 4)
       (new_Entities new_Level)))) = [\<lparr>xc = 606, yc = 3 * 83\<rparr>]"
proof -
  let ?g = "\<lambda>n::nat. if n = 0 then 0 else if n = 1 then 6004799503160661 / 2 ^ 53 else (3 / 4 :: real)"
  have row: "\<lfloor>double_round (double_round (6004799503160661 / 2 ^ 53 * 3) + 1)\<rfloor> = 3"
  proof -
    have "6004799503160661 / 2 ^ 53 * 3 = (3 * (6004799503160661 / 2 ^ 53) :: real)" by simp
    moreover have "(2::real) + 1 = 3" by simp
    ultimately have "double_round (double_round (6004799503160661 / 2 ^ 53 * 3) + 1) = 3"
      by (simp only: double_round_tie double_round_three)
    then show ?thesis by (simp only: floor_numeral)
  qed
  have g0: "?g 0 < 1 / 10 * 0.5" by simp
  have g1: "?g 1 = 6004799503160661 / 2 ^ 53" by simp
  have g2: "?g 2 < 0.5 \<longleftrightarrow> False" by simp
  have k: "\<lfloor>double_round (double_round (?g 1 * 3) + 1)\<rfloor> = 3"
    unfolding g1 by (rule row)
  have "map pos (enemies (snd (checkEnemyCreation (1 / 10) ?g (new_Entities new_Level)))) =
      [\<lparr>xc = 606, yc = 3 * 83\<rparr>]"
    unfolding spawned_pos [of ?g "1 / 10" 3 False, OF g0 k g2]
    by (simp add: new_Entities_def widthPixels_new_Level tileWidth_new_Level tileHeight_new_Level)
  then show ?thesis by simp
qed

text \<open>
  Claim C6, amended: a frame's spawn check adds at most one enemy, and adds one
  exactly when the first draw is below \<open>dt * 0.5\<close>. The new enemy has
  \<open>y = row * tileHeight\<close> where, for the second draw \<open>r\<close> (a double in [0, 1), so
  at most 1 - 2^-53), \<open>row\<close> is the floor of the rounded \<open>r * 3 + 1\<close>: it is 1, 2
  or 3, and it is the row of the third in which \<open>r\<close> lies, except that a draw less
  than 2^-53 below 1/3 or 2/3 may get the next row. The third draw chooses the
  side, each for half of the interval: below 0.5 the enemy starts at
  \<open>x = - tileWidth\<close> with velocity +100, otherwise at \<open>x = widthPixels + tileWidth\<close>
  with velocity -100.
\<close>

theorem checkEnemyCreation_spawn:
  assumes "0 \<le> g 1" and "g 1 \<le> 1 - 1 / 2 ^ 53"
  shows "snd (checkEnemyCreation dt g es) =
     (if g 0 < dt * 0.5 then
        es\<lparr>enemies := enemies es @
          [\<lparr>pos = \<lparr>xc = (if g 2 < 0.5 then - tileWidth (es_level es)
                           else widthPixels (es_level es) + tileWidth (es_level es)),
                     yc = real_of_int \<lfloor>double_round (double_round (g 1 * 3) + 1)\<rfloor>
                            * tileHeight (es_level es)\<rparr>,
            sprite = ''images/enemy-bug.png'',
            movement = \<lparr>xc = (if g 2 < 0.5 then 100 else - 100), yc = 0\<rparr>\<rparr>]\<rparr>
      else es) \<and>
    length (enemies (snd (checkEnemyCreation dt g es))) \<le> length (enemies es) + 1 \<and>
    (length (enemies (snd (checkEnemyCreation dt g es))) = length (enemies es) + 1
       \<longleftrightarrow> g 0 < dt * 0.5) \<and>
    \<lfloor>double_round (double_round (g 1 * 3) + 1)\<rfloor> \<in> {1, 2, 3} \<and>
    (g 1 \<le> 1 / 3 - 1 / 2 ^ 53 \<longrightarrow> \<lfloor>double_round (double_round (g 1 * 3) + 1)\<rfloor> = 1) \<and>
    (1 / 3 \<le> g 1 \<and> g 1 \<le> 2 / 3 - 1 / 2 ^ 53 \<longrightarrow>
       \<lfloor>double_round (double_round (g 1 * 3) + 1)\<rfloor> = 2) \<and>
    (2 / 3 \<le> g 1 \<longrightarrow> \<lfloor>double_round (double_round (g 1 * 3) + 1)\<rfloor> = 3)"
proof -
  have len: "length (enemies (snd (checkEnemyCreation dt g es))) \<le> length (enemies es) + 1"
    "length (enemies (snd (checkEnemyCreation dt g es))) = length (enemies es) + 1
       \<longleftrightarrow> g 0 < dt * 0.5"
    by (simp_all add: checkEnemyCreation_result)
  from checkEnemyCreation_result [of dt g es] len row_cases [OF assms]
  show ?thesis by (intro conjI impI) (assumption | elim conjE)+
qed

theorem checkEnemyCreation_spawn_witness:
  "0 \<le> (\<lambda>n::nat. if n = 0 then 0 else if n = 1 then 1 / 2 else (1 / 4 :: real)) 1 \<and>
   (\<lambda>n::nat. if n = 0 then 0 else if n = 1 then 1 / 2 else (1 / 4 :: real)) 1 \<le> 1 - 1 / 2 ^ 53 \<and>
   enemies (snd (checkEnemyCreation (1 / 10)
       (\<lambda>n. if n = 0 then 0 else if n = 1 then 1 / 2 else 1 / 4) (new_Entities new_Level))) =
     [\<lparr>pos = \<lparr>xc = - 101, yc = 166\<rparr>, sprite = ''images/enemy-bug.png'',
       movement = \<lparr>xc = 100, yc = 0\<rparr>\<rparr>] \<and>
   enemies (snd (checkEnemyCreation (1 / 10)
       (\<lambda>n. if n = 0 then 1 / 20 else if n = 1 then 1 / 2 else 1 / 4) (new_Entities new_Level))) = []"
proof -
  let ?g = "\<lambda>n::nat. if n = 0 then 0 else if n = 1 then 1 / 2 else (1 / 4 :: real)"
  let ?h = "\<lambda>n::nat. if n = 0 then 1 / 20 else if n = 1 then 1 / 2 else (1 / 4 :: real)"
  have g1: "0 \<le> ?g 1" "?g 1 \<le> 1 - 1 / 2 ^ 53" by simp_all
  have h1: "0 \<le> ?h 1" "?h 1 \<le> 1 - 1 / 2 ^ 53" by simp_all
  have mid: "1 / 3 \<le> ?g 1 \<and> ?g 1 \<le> 2 / 3 - 1 / 2 ^ 53" by simp
  from checkEnemyCreation_spawn [of ?g "1 / 10" "new_Entities new_Level", OF g1] mid
  have row: "\<lfloor>double_round (double_round (?g 1 * 3) + 1)\<rfloor> = 2" by blast
  from checkEnemyCreation_spawn [of ?g "1 / 10" "new_Entities new_Level", OF g1]
  have "snd (checkEnemyCreation (1 / 10) ?g (new_Entities new_Level)) =
     (if ?g 0 < 1 / 10 * 0.5 then
        (new_Entities new_Level)\<lparr>enemies := enemies (new_Entities new_Level) @
          [\<lparr>pos = \<lparr>xc = (if ?g 2 < 0.5 then - tileWidth (es_level (new_Entities new_Level))
                           else widthPixels (es_level (new_Entities new_Level))
                                + tileWidth (es_level (new_Entities new_Level))),
                     yc = real_of_int \<lfloor>double_round (double_round (?g 1 * 3) + 1)\<rfloor>
                            * tileHeight (es_level (new_Entities new_Level))\<rparr>,
            sprite = ''images/enemy-bug.png'',
            movement = \<lparr>xc = (if ?g 2 < 0.5 then 100 else - 100), yc = 0\<rparr>\<rparr>]\<rparr>
      else new_Entities new_Level)"
    by (rule conjunct1)
  then have a: "enemies (snd (checkEnemyCreation (1 / 10) ?g (new_Entities new_Level))) =
     [\<lparr>pos = \<lparr>xc = - 101, yc = 166\<rparr>, sprite = ''images/enemy-bug.png'',
       movement = \<lparr>xc = 100, yc = 0\<rparr>\<rparr>]"
    unfolding row
    by (simp add: new_Entities_def tileWidth_new_Level tileHeight_new_Level)
  from checkEnemyCreation_spawn [of ?h "1 / 10" "new_Entities new_Level", OF h1]
  have b: "enemies (snd (checkEnemyCreation (1 / 10) ?h (new_Entities new_Level))) = []"
    by (simp add: new_Entities_def)
  show ?thesis using g1 a b by blast
qed

section \<open>Tile lookup\<close>

text \<open>
  Claim C7, as stated: \<open>getTile(row, col)\<close> fails with a bounds error for every
  \<open>(row, col)\<close> outside the grid. It does not: at row 6, column 0 the lookup
  returns \<open>undefined\<close>, and at row 0, column 7 it returns the stone tile of row 1,
  column 2; neither is an error.
\<close>

theorem getTile_no_bounds_error:
  "getTile new_Level 6 0 = Inr JUndefined \<and>
   getTile new_Level 0 7 = Inr (JStr ''images/stone-block.png'')"
  by (simp add: getTile_def array_get_def widthTiles_new_Level length_tiles_new_Level
      nth_tiles_new_Level)

text \<open>
  Claim C7, amended: \<open>getTile(row, col)\<close> never fails. It reads the tile sequence at
  index \<open>row * widthTiles + col\<close>: the result is \<open>undefined\<close> when that index is
  outside 0..29, and otherwise the tile at that index (water below 5, stone below
  20, grass from 20 on). For every \<open>(row, col)\<close> inside the grid this is water for
  row 0, stone for rows 1 to 3 and grass for rows 4 and 5.
\<close>

theorem getTile_layout:
  "getTile new_Level row col =
     Inr (if row * 5 + col < 0 \<or> 30 \<le> row * 5 + col then JUndefined
          else if row * 5 + col < 5 then JStr ''images/water-block.png''
          else if row * 5 + col < 20 then JStr ''images/stone-block.png''
          else JStr ''images/grass-block.png'') \<and>
   (0 \<le> row \<and> row < heightTiles new_Level \<and> 0 \<le> col \<and> col < widthTiles new_Level \<longrightarrow>
      getTile new_Level row col =
        Inr (JStr (if row = 0 then ''images/water-block.png''
                   else if row \<le> 3 then ''images/stone-block.png''
                   else ''images/grass-block.png'')))"
proof -
  have idx: "getTile new_Level row col =
     Inr (if row * 5 + col < 0 \<or> 30 \<le> row * 5 + col then JUndefined
          else if row * 5 + col < 5 then JStr ''images/water-block.png''
          else if row * 5 + col < 20 then JStr ''images/stone-block.png''
          else JStr ''images/grass-block.png'')"
  proof (cases "0 \<le> row * 5 + col \<and> row * 5 + col < 30")
    case True
    then have "nat (row * 5 + col) < 30" by linarith
    from nth_tiles_new_Level [OF this] True show ?thesis
      by (simp add: getTile_def array_get_def widthTiles_new_Level length_tiles_new_Level)
        linarith
  next
    case False
    then show ?thesis
      by (auto simp: getTile_def array_get_def widthTiles_new_Level length_tiles_new_Level)
  qed
  have "getTile new_Level row col =
        Inr (JStr (if row = 0 then ''images/water-block.png''
                   else if row \<le> 3 then ''images/stone-block.png''
                   else ''images/grass-block.png''))"
    if "0 \<le> row" "row < 6" "0 \<le> col" "col < 5"
    using that by (simp add: idx)
  with idx show ?thesis
    by (simp add: widthTiles_new_Level heightTiles_new_Level)
qed

theorem getTile_layout_witness:
  "0 \<le> (2::int) \<and> 2 < heightTiles new_Level \<and> 0 \<le> (3::int) \<and> 3 < widthTiles new_Level \<and>
   getTile new_Level 2 3 = Inr (JStr ''images/stone-block.png'') \<and>
   getTile new_Level 7 1 = Inr JUndefined"
  using getTile_layout [of 2 3] getTile_layout [of 7 1]
  by (simp add: widthTiles_new_Level heightTiles_new_Level)

section \<open>The time step of a frame\<close>

text \<open>
  Claim C8, as stated: for every raw elapsed time, negative ones included, the time
  step passed to the update lies in [0, 0.1]. With the clock at 500 ms and the last
  frame recorded at 1000 ms the time step is -0.5.
\<close>

theorem frame_dt_negative:
  "\<not> (0 \<le> frame_dt 500 (initialiseLevel 1000 (new_Engine new_Level)) \<and>
      frame_dt 500 (initialiseLevel 1000 (new_Engine new_Level)) \<le> 0.1)"
  by (simp add: frame_dt_def updateTimer_def initialiseLevel_def)

text \<open>
  Claim C8, amended: the time step passed to the update is the smaller of 0.1 and
  the raw elapsed time in seconds; it is at most 0.1 for every raw value, it lies in
  [0, 0.1] when the clock has not gone back since the last frame, and it is negative
  when the clock has gone back.
\<close>

theorem frame_dt_capped:
  "frame_dt now eng = min 0.1 (real_of_int (now - lastTime eng) / 1000) \<and>
   frame_dt now eng \<le> 0.1 \<and>
   (lastTime eng \<le> now \<longrightarrow> 0 \<le> frame_dt now eng) \<and>
   (now < lastTime eng \<longrightarrow> frame_dt now eng < 0)"
  by (simp add: frame_dt_def updateTimer_def Let_def)

theorem frame_dt_capped_witness:
  "lastTime (initialiseLevel 1000 (new_Engine new_Level)) \<le> 1016 \<and>
   frame_dt 1016 (initialiseLevel 1000 (new_Engine new_Level)) = 2 / 125 \<and>
   frame_dt 5000 (initialiseLevel 1000 (new_Engine new_Level)) = 1 / 10 \<and>
   500 < lastTime (initialiseLevel 1000 (new_Engine new_Level)) \<and>
   frame_dt 500 (initialiseLevel 1000 (new_Engine new_Level)) < 0"
  using frame_dt_capped [of 1016 "initialiseLevel 1000 (new_Engine new_Level)"]
    frame_dt_capped [of 5000 "initialiseLevel 1000 (new_Engine new_Level)"]
    frame_dt_capped [of 500 "initialiseLevel 1000 (new_Engine new_Level)"]
  by (simp add: initialiseLevel_def)

section \<open>A frame of zero length\<close>

text \<open>
  Claim C9: for any engine (any state, score, player position and enemy
  collection) the update with \<open>dt = 0\<close> leaves the entity collection, and so every
  position, the score and the state unchanged. The draws of \<open>Math.random()\<close> are
  never negative, which is the hypothesis on the first draw.
\<close>

theorem Engine_update_dt_zero:
  assumes "0 \<le> g 0"
  shows "entities (snd (Engine_update 0 g eng)) = entities eng \<and>
         score (snd (Engine_update 0 g eng)) = score eng \<and>
         state (snd (Engine_update 0 g eng)) = state eng"
  using Entities_update_zero [of g "entities eng", OF assms]
  by (simp add: Engine_update_result)

theorem Engine_update_dt_zero_witness:
  "0 \<le> (\<lambda>n::nat. 1 / 2 :: real) 0 \<and>
   entities (snd (Engine_update 0 (\<lambda>n. 1 / 2)
      ((initialiseLevel 1000 (new_Engine new_Level))
         \<lparr>entities := (new_Entities new_Level)
            \<lparr>enemies := [new_Enemy \<lparr>xc = 606, yc = 83\<rparr> \<lparr>xc = 100, yc = 0\<rparr>]\<rparr>\<rparr>))) =
     (new_Entities new_Level)\<lparr>enemies := [new_Enemy \<lparr>xc = 606, yc = 83\<rparr> \<lparr>xc = 100, yc = 0\<rparr>]\<rparr> \<and>
   score (snd (Engine_update 0 (\<lambda>n. 1 / 2)
      ((initialiseLevel 1000 (new_Engine new_Level))
         \<lparr>entities := (new_Entities new_Level)
            \<lparr>enemies := [new_Enemy \<lparr>xc = 606, yc = 83\<rparr> \<lparr>xc = 100, yc = 0\<rparr>]\<rparr>\<rparr>))) = 0 \<and>
   state (snd (Engine_update 0 (\<lambda>n. 1 / 2)
      ((initialiseLevel 1000 (new_Engine new_Level))
         \<lparr>entities := (new_Entities new_Level)
            \<lparr>enemies := [new_Enemy \<lparr>xc = 606, yc = 83\<rparr> \<lparr>xc = 100, yc = 0\<rparr>]\<rparr>\<rparr>))) = running"
proof -
  have h: "0 \<le> (\<lambda>n::nat. 1 / 2 :: real) 0" by simp
  from Engine_update_dt_zero [of "\<lambda>n. 1 / 2" "(initialiseLevel 1000 (new_Engine new_Level))
         \<lparr>entities := (new_Entities new_Level)
            \<lparr>enemies := [new_Enemy \<lparr>xc = 606, yc = 83\<rparr> \<lparr>xc = 100, yc = 0\<rparr>]\<rparr>\<rparr>", OF h]
  show ?thesis
    by (simp add: initialiseLevel_def new_Engine_def reset_def)
qed

end
